theory Spec2Isabelle
  imports Main
begin

section \<open>Python values\<close>

text \<open>
  A Python \<open>str\<close> is a sequence of Unicode code points; it is modelled as a list of
  natural numbers, one per code point, so that \<open>str.strip\<close> can be given the
  white space of Unicode and not only that of ASCII. \<open>u ''abc''\<close> is the string
  literal \<open>"abc"\<close>.
\<close>

type_synonym pystr = "nat list"

abbreviation (input) u :: "string \<Rightarrow> pystr" where
  "u s \<equiv> map of_char s"

text \<open>
  An exception is its class name and the text \<open>str(e)\<close> gives; only exceptions
  derived from \<open>Exception\<close> are modelled, they are what \<open>except Exception\<close> catches.
\<close>

datatype exn = PyExc string pystr

fun exc_str :: "exn \<Rightarrow> pystr" where
  "exc_str (PyExc cls msg) = msg"

text \<open>\<open>str(n)\<close> for a non-negative integer, as an f-string formats it.\<close>

fun py_decimal :: "nat \<Rightarrow> pystr" where
  "py_decimal n = (if n < 10 then [48 + n] else py_decimal (n div 10) @ [48 + n mod 10])"

declare py_decimal.simps [simp del]

text \<open>\<open>sep.join(xs)\<close>.\<close>

fun py_join :: "pystr \<Rightarrow> pystr list \<Rightarrow> pystr" where
  "py_join sep [] = []"
| "py_join sep [x] = x"
| "py_join sep (x # y # ys) = x @ sep @ py_join sep (y # ys)"

text \<open>
  \<open>str.isspace\<close> of one code point: the white space of the Unicode database
  (general category Zs, or bidirectional class WS, B or S).
\<close>

definition py_isspace :: "nat \<Rightarrow> bool" where
  "py_isspace c \<longleftrightarrow>
     (9 \<le> c \<and> c \<le> 13) \<or> (28 \<le> c \<and> c \<le> 32) \<or> c = 133 \<or> c = 160 \<or> c = 5760 \<or>
     (8192 \<le> c \<and> c \<le> 8202) \<or> c = 8232 \<or> c = 8233 \<or> c = 8239 \<or> c = 8287 \<or> c = 12288"

text \<open>\<open>s.strip()\<close>: white space removed at both ends.\<close>

definition py_strip :: "pystr \<Rightarrow> pystr" where
  "py_strip s = rev (dropWhile py_isspace (rev (dropWhile py_isspace s)))"

section \<open>\<open>os.path\<close> on POSIX\<close>

text \<open>Code point 47 is the separator \<open>/\<close>, 46 the dot.\<close>

definition after_last_sep :: "pystr \<Rightarrow> pystr" where
  "after_last_sep p = rev (takeWhile (\<lambda>c. c \<noteq> 47) (rev p))"

definition upto_last_sep :: "pystr \<Rightarrow> pystr" where
  "upto_last_sep p = rev (dropWhile (\<lambda>c. c \<noteq> 47) (rev p))"

definition rstrip_sep :: "pystr \<Rightarrow> pystr" where
  "rstrip_sep p = rev (dropWhile (\<lambda>c. c = 47) (rev p))"

definition basename :: "pystr \<Rightarrow> pystr" where
  "basename p = after_last_sep p"


definition path_join :: "pystr \<Rightarrow> pystr \<Rightarrow> pystr" where
  "path_join a b =
     (if b \<noteq> [] \<and> hd b = 47 then b
      else if a = [] \<or> last a = 47 then a @ b
      else a @ [47] @ b)"

text \<open>\<open>os.path.splitext\<close>: the extension starts at the last dot of the last component,
  unless only dots come before it in that component.\<close>

definition splitext :: "pystr \<Rightarrow> pystr \<times> pystr" where
  "splitext p =
     (let name = after_last_sep p;
          ext = 46 # rev (takeWhile (\<lambda>c. c \<noteq> 46) (rev name));
          stem = take (length name - length ext) name
      in if 46 \<in> set name \<and> (\<exists>c \<in> set stem. c \<noteq> 46)
         then (upto_last_sep p @ stem, ext) else (p, []))"

text \<open>
  \<open>str.lower\<close> restricted to ASCII. The source compares the lowered extension with
  \<open>.pdf\<close>, \<open>.png\<close>, \<open>.jpg\<close> and \<open>.jpeg\<close>; no code point outside ASCII lowers to one of
  their letters, so the comparison gives the same result with this function.
\<close>

definition ascii_lower :: "pystr \<Rightarrow> pystr" where
  "ascii_lower s = map (\<lambda>c. if 65 \<le> c \<and> c \<le> 90 then c + 32 else c) s"

section \<open>Parsed YAML and the dictionary operations the source applies to it\<close>

text \<open>
  What \<open>yaml.safe_load\<close> returns: null, booleans, integers, strings, sequences and
  mappings (floats, dates and binary data are left out). A mapping is an association
  list in insertion order.
\<close>

datatype yaml =
    YNull
  | YBool bool
  | YInt int
  | YStr pystr
  | YList "yaml list"
  | YDict "(yaml \<times> yaml) list"

type_synonym pydict = "(yaml \<times> yaml) list"

text \<open>Equality of dictionary keys: \<open>True == 1\<close> and \<open>False == 0\<close> in Python.\<close>

definition key_num :: "yaml \<Rightarrow> int option" where
  "key_num k = (case k of YBool b \<Rightarrow> Some (if b then 1 else 0) | YInt i \<Rightarrow> Some i | _ \<Rightarrow> None)"

definition py_key_eq :: "yaml \<Rightarrow> yaml \<Rightarrow> bool" where
  "py_key_eq a b =
     (case (key_num a, key_num b) of
        (Some x, Some y) \<Rightarrow> x = y
      | (None, None) \<Rightarrow> a = b
      | _ \<Rightarrow> False)"

definition dict_lookup :: "pydict \<Rightarrow> yaml \<Rightarrow> yaml option" where
  "dict_lookup kvs k = map_option snd (find (\<lambda>kv. py_key_eq (fst kv) k) kvs)"

fun dict_set :: "pydict \<Rightarrow> yaml \<Rightarrow> yaml \<Rightarrow> pydict" where
  "dict_set [] k v = [(k, v)]"
| "dict_set ((k', v') # kvs) k v =
     (if py_key_eq k' k then (k', v) # kvs else (k', v') # dict_set kvs k v)"

text \<open>The texts of the built-in exceptions are shortened; they only reach the log.\<close>

definition KeyError :: "pystr \<Rightarrow> exn" where
  "KeyError key = PyExc ''KeyError'' ([39] @ key @ [39])"

definition TypeError :: "string \<Rightarrow> exn" where
  "TypeError msg = PyExc ''TypeError'' (u msg)"

definition ValueError :: "string \<Rightarrow> exn" where
  "ValueError msg = PyExc ''ValueError'' (u msg)"

definition AttributeError :: "string \<Rightarrow> exn" where
  "AttributeError msg = PyExc ''AttributeError'' (u msg)"

text \<open>\<open>v[key]\<close> for a string key.\<close>

definition py_getitem :: "yaml \<Rightarrow> pystr \<Rightarrow> exn + yaml" where
  "py_getitem v key =
     (case v of
        YDict kvs \<Rightarrow>
          (case dict_lookup kvs (YStr key) of Some x \<Rightarrow> Inr x | None \<Rightarrow> Inl (KeyError key))
      | YStr s \<Rightarrow> Inl (TypeError ''string indices must be integers'')
      | YList xs \<Rightarrow> Inl (TypeError ''list indices must be integers or slices, not str'')
      | _ \<Rightarrow> Inl (TypeError ''object is not subscriptable''))"

text \<open>\<open>key in s\<close> for two strings: \<open>key\<close> occurs in \<open>s\<close>.\<close>

fun py_in_str :: "pystr \<Rightarrow> pystr \<Rightarrow> bool" where
  "py_in_str key [] = (key = [])"
| "py_in_str key (c # cs) = (take (length key) (c # cs) = key \<or> py_in_str key cs)"

text \<open>\<open>key in v\<close> for a string key.\<close>

definition py_contains :: "pystr \<Rightarrow> yaml \<Rightarrow> exn + bool" where
  "py_contains key v =
     (case v of
        YDict kvs \<Rightarrow> Inr (dict_lookup kvs (YStr key) \<noteq> None)
      | YStr s \<Rightarrow> Inr (py_in_str key s)
      | YList xs \<Rightarrow> Inr (YStr key \<in> set xs)
      | _ \<Rightarrow> Inl (TypeError ''argument is not iterable''))"

text \<open>\<open>v.get(key, default)\<close>.\<close>

definition py_get :: "yaml \<Rightarrow> pystr \<Rightarrow> yaml \<Rightarrow> exn + yaml" where
  "py_get v key dflt =
     (case v of
        YDict kvs \<Rightarrow> Inr (case dict_lookup kvs (YStr key) of Some x \<Rightarrow> x | None \<Rightarrow> dflt)
      | _ \<Rightarrow> Inl (AttributeError ''object has no attribute get''))"

definition py_hashable :: "yaml \<Rightarrow> bool" where
  "py_hashable k = (case k of YList xs \<Rightarrow> False | YDict kvs \<Rightarrow> False | _ \<Rightarrow> True)"

text \<open>
  \<open>dict.update(other)\<close>: a mapping is merged key by key; anything else is iterated,
  and each element must itself be a sequence of two elements, the key and the value.
\<close>

definition update_pair :: "yaml \<Rightarrow> exn + (yaml \<times> yaml)" where
  "update_pair x =
     (case x of
        YList [k, v] \<Rightarrow> Inr (k, v)
      | YStr [a, b] \<Rightarrow> Inr (YStr [a], YStr [b])
      | YDict [(k1, v1), (k2, v2)] \<Rightarrow> Inr (k1, k2)
      | YList xs \<Rightarrow> Inl (ValueError ''dictionary update sequence element has the wrong length'')
      | YStr s \<Rightarrow> Inl (ValueError ''dictionary update sequence element has the wrong length'')
      | YDict kvs \<Rightarrow> Inl (ValueError ''dictionary update sequence element has the wrong length'')
      | _ \<Rightarrow> Inl (TypeError ''cannot convert dictionary update sequence element to a sequence''))"

fun update_seq :: "pydict \<Rightarrow> yaml list \<Rightarrow> exn + pydict" where
  "update_seq d [] = Inr d"
| "update_seq d (x # xs) =
     (case update_pair x of
        Inl e \<Rightarrow> Inl e
      | Inr (k, v) \<Rightarrow>
          if py_hashable k then update_seq (dict_set d k v) xs
          else Inl (TypeError ''unhashable type''))"

definition py_update :: "pydict \<Rightarrow> yaml \<Rightarrow> exn + pydict" where
  "py_update d other =
     (case other of
        YDict kvs \<Rightarrow> Inr (foldl (\<lambda>acc kv. dict_set acc (fst kv) (snd kv)) d kvs)
      | YList xs \<Rightarrow> update_seq d xs
      | YStr s \<Rightarrow>
          if s = [] then Inr d
          else Inl (ValueError ''dictionary update sequence element has length 1; 2 is required'')
      | _ \<Rightarrow> Inl (TypeError ''object is not iterable''))"

text \<open>Sequencing of steps that may raise: the first exception ends the sequence.\<close>

definition bind_exc :: "exn + 'a \<Rightarrow> ('a \<Rightarrow> exn + 'b) \<Rightarrow> exn + 'b" where
  "bind_exc m f = (case m of Inl e \<Rightarrow> Inl e | Inr x \<Rightarrow> f x)"

section \<open>The batch dispatcher of \<open>process_single_file\<close>\<close>

text \<open>
  \<open>futures ! i\<close> is what \<open>future.result()\<close> does for the task of page \<open>i\<close>: it
  returns the page's text (\<open>Inr\<close>) or raises (\<open>Inl\<close>). \<open>as_completed\<close> yields the
  futures in the order they finish, here the list of their page indices.
\<close>

definition page_error_msg :: "nat \<Rightarrow> exn \<Rightarrow> pystr" where
  "page_error_msg page_index exc =
     u ''Error processing page '' @ py_decimal (page_index + 1) @ u '': '' @ exc_str exc"

text \<open>
  The body of the loop over \<open>as_completed\<close>. Its indices are values of the dictionary
  \<open>future_to_page\<close>, so they are below the number of pages; for any other number there
  is no future and nothing is stored.
\<close>

definition store_result :: "(exn + pystr) list \<Rightarrow> pystr list \<Rightarrow> nat \<Rightarrow> pystr list" where
  "store_result futures page_results page_index =
     (if page_index < length futures then
        (case futures ! page_index of
           Inr page_text \<Rightarrow> page_results[page_index := page_text]
         | Inl exc \<Rightarrow> page_results[page_index := page_error_msg page_index exc])
      else page_results)"

text \<open>\<open>page_results = ["" for _ in images]\<close>, then the loop.\<close>

definition collect_results :: "(exn + pystr) list \<Rightarrow> nat list \<Rightarrow> pystr list" where
  "collect_results futures completed =
     foldl (store_result futures) (replicate (length futures) []) completed"

definition page_separator :: pystr where
  "page_separator = [10, 10]"

definition full_text_of :: "pystr list \<Rightarrow> pystr" where
  "full_text_of page_results = py_join page_separator page_results"

text \<open>What ends up in the slot of one page.\<close>

definition slot_text :: "(exn + pystr) list \<Rightarrow> nat \<Rightarrow> pystr" where
  "slot_text futures i =
     (case futures ! i of Inr page_text \<Rightarrow> page_text | Inl exc \<Rightarrow> page_error_msg i exc)"

section \<open>The environment of a run\<close>

text \<open>
  The file system as the program sees it: a path names a regular file with its
  content, a directory, or nothing. Refusals of the operating system that the source
  neither raises nor handles (no permission, a full disk) are not modelled.
\<close>

datatype node = File "nat list" | Dir

type_synonym fs = "pystr \<Rightarrow> node option"

definition path_exists :: "fs \<Rightarrow> pystr \<Rightarrow> bool" where
  "path_exists files p = (files p \<noteq> None)"

definition isfile :: "fs \<Rightarrow> pystr \<Rightarrow> bool" where
  "isfile files p = (case files p of Some (File content) \<Rightarrow> True | _ \<Rightarrow> False)"

definition isdir :: "fs \<Rightarrow> pystr \<Rightarrow> bool" where
  "isdir files p = (files p = Some Dir)"

text \<open>A page image: the identity of the raster object.\<close>

datatype image = Image nat

text \<open>
  The collaborators outside the repository, one field each: what they answer is a
  parameter of every theorem. A call that may raise answers \<open>Inl\<close> with the exception.
  \<^item> \<open>env_home\<close>: the home directory \<open>expanduser\<close> finds, if any;
    \<open>module_dir\<close>: \<open>os.path.dirname(__file__)\<close>;
  \<^item> \<open>env_api_key\<close>: \<open>os.getenv("GEMINI_API_KEY")\<close> after \<open>load_dotenv\<close>;
  \<^item> \<open>genai_configure\<close>: the exception \<open>genai.configure\<close> raises, if any;
  \<^item> \<open>yaml_safe_load\<close>, \<open>yaml_dump\<close>: the YAML reader on a file's content and
    the YAML writer, the latter giving the content that is written;
  \<^item> \<open>fitz_pages\<close>, \<open>pil_open\<close>: the PDF rasteriser and the image decoder;
  \<^item> \<open>gemini_generate model prompt image\<close>: the OCR call, from building the model
    object to reading \<open>response.text\<close>;
  \<^item> \<open>as_completed n\<close>: the order in which the \<open>n\<close> futures of a document finish;
  \<^item> \<open>jinja_render files path context\<close>: loading the template and rendering it;
  \<^item> \<open>codec_encode encoding text\<close>: the text layer of the output file;
  \<^item> \<open>os_abspath\<close>, \<open>os_relpath\<close>, \<open>now_isoformat\<close>: the current directory and the
    clock;
  \<^item> \<open>glob_glob files pattern recursive\<close>: \<open>glob.glob\<close>.
\<close>

record world =
  env_home :: "pystr option"
  module_dir :: pystr
  env_api_key :: "pystr option"
  genai_configure :: "pystr \<Rightarrow> exn option"
  yaml_safe_load :: "nat list \<Rightarrow> exn + yaml"
  yaml_dump :: "yaml \<Rightarrow> nat list"
  fitz_pages :: "fs \<Rightarrow> pystr \<Rightarrow> exn + image list"
  pil_open :: "fs \<Rightarrow> pystr \<Rightarrow> exn + image"
  gemini_generate :: "yaml \<Rightarrow> yaml \<Rightarrow> image \<Rightarrow> exn + pystr"
  as_completed :: "nat \<Rightarrow> nat list"
  jinja_render :: "fs \<Rightarrow> pystr \<Rightarrow> pydict \<Rightarrow> exn + pystr"
  codec_encode :: "yaml \<Rightarrow> pystr \<Rightarrow> exn + nat list"
  os_abspath :: "pystr \<Rightarrow> pystr"
  os_relpath :: "pystr \<Rightarrow> pystr \<Rightarrow> exn + pystr"
  now_isoformat :: pystr
  glob_glob :: "fs \<Rightarrow> pystr \<Rightarrow> bool \<Rightarrow> pystr list"

section \<open>Configuration: \<open>get_config_path\<close>, \<open>setup_config\<close>, \<open>load_config\<close>, \<open>configure_genai\<close>\<close>

text \<open>\<open>os.path.expanduser("~/.config/handwrite")\<close>: without a home directory the path
  is returned as it is.\<close>

definition expanduser_config_dir :: "world \<Rightarrow> pystr" where
  "expanduser_config_dir w =
     (case env_home w of
        None \<Rightarrow> u ''~/.config/handwrite''
      | Some userhome \<Rightarrow> rstrip_sep userhome @ u ''/.config/handwrite'')"

definition default_config_path :: "world \<Rightarrow> pystr" where
  "default_config_path w = path_join (expanduser_config_dir w) (u ''config.yaml'')"

text \<open>\<open>config_arg\<close> is \<open>None\<close> when no \<open>--config\<close> was given; an empty string is false
  in Python as \<open>None\<close> is.\<close>

definition get_config_path :: "world \<Rightarrow> fs \<Rightarrow> pystr option \<Rightarrow> pystr" where
  "get_config_path w files config_arg =
     (case config_arg of
        Some p \<Rightarrow> if p \<noteq> [] \<and> path_exists files p then p else default_config_path w
      | None \<Rightarrow> default_config_path w)"

definition template_default_path :: "world \<Rightarrow> pystr" where
  "template_default_path w = path_join (module_dir w) (u ''templates/note_template.md'')"


definition config_with_prompt :: "world \<Rightarrow> pystr \<Rightarrow> yaml" where
  "config_with_prompt w prompt =
     YDict [
       (YStr (u ''gemini''),
          YDict [(YStr (u ''model''), YStr (u ''gemini-1.5-pro'')),
                 (YStr (u ''prompt''), YStr prompt)]),
       (YStr (u ''template''),
          YDict [(YStr (u ''path''), YStr (template_default_path w)),
                 (YStr (u ''variables''), YDict [])]),
       (YStr (u ''output''),
          YDict [(YStr (u ''format''), YStr (u ''markdown'')),
                 (YStr (u ''encoding''), YStr (u ''utf-8''))])]"



definition load_config :: "world \<Rightarrow> fs \<Rightarrow> pystr \<Rightarrow> exn + yaml" where
  "load_config w files config_path =
     (if \<not> path_exists files config_path
      then Inr (config_with_prompt w (u ''Extract the handwritten text from this image.''))
      else (case files config_path of
              Some (File content) \<Rightarrow> yaml_safe_load w content
            | _ \<Rightarrow> Inl (PyExc ''IsADirectoryError'' config_path)))"

definition configure_genai :: "world \<Rightarrow> exn + unit" where
  "configure_genai w =
     (case env_api_key w of
        None \<Rightarrow>
          Inl (ValueError ''GEMINI_API_KEY not found in environment variables or .env file'')
      | Some key \<Rightarrow>
          if key = []
          then Inl (ValueError ''GEMINI_API_KEY not found in environment variables or .env file'')
          else (case genai_configure w key of Some e \<Rightarrow> Inl e | None \<Rightarrow> Inr ()))"

section \<open>One document: \<open>get_images\<close>, \<open>ocr_image_with_gemini\<close>, \<open>render_markdown\<close>, \<open>process_single_file\<close>\<close>

definition get_images :: "world \<Rightarrow> fs \<Rightarrow> pystr \<Rightarrow> image list" where
  "get_images w files input_path =
     (let file_extension = ascii_lower (snd (splitext input_path))
      in if file_extension = u ''.pdf'' then
           (case fitz_pages w files input_path of Inr images \<Rightarrow> images | Inl e \<Rightarrow> [])
         else if file_extension \<in> set [u ''.png'', u ''.jpg'', u ''.jpeg''] then
           (case pil_open w files input_path of Inr img \<Rightarrow> [img] | Inl e \<Rightarrow> [])
         else [])"

definition ocr_image_with_gemini :: "world \<Rightarrow> image \<Rightarrow> yaml \<Rightarrow> yaml \<Rightarrow> pystr" where
  "ocr_image_with_gemini w img model_name prompt =
     (case gemini_generate w model_name prompt img of
        Inr text \<Rightarrow> text
      | Inl e \<Rightarrow> u ''Error: '' @ exc_str e)"

text \<open>
  Opening the output file for writing and writing the text: the file is created (or
  emptied) before the text is encoded, so a failing codec leaves it empty.
\<close>

definition write_text :: "world \<Rightarrow> fs \<Rightarrow> pystr \<Rightarrow> yaml \<Rightarrow> pystr \<Rightarrow> fs \<times> exn option" where
  "write_text w files path encoding content =
     (if \<not> (case encoding of YNull \<Rightarrow> True | YStr name \<Rightarrow> True | _ \<Rightarrow> False)
      then (files, Some (TypeError ''open() argument encoding must be str or None''))
      else if files path = Some Dir
      then (files, Some (PyExc ''IsADirectoryError'' path))
      else (case codec_encode w encoding content of
              Inl e \<Rightarrow> (files(path \<mapsto> File []), Some e)
            | Inr bytes \<Rightarrow> (files(path \<mapsto> File bytes), None)))"

text \<open>
  \<open>render_markdown\<close> catches every exception of its body and returns nothing, so all
  it gives back is the file system. A template path that is not a string makes
  \<open>os.path.dirname\<close> raise.
\<close>

definition render_markdown :: "world \<Rightarrow> fs \<Rightarrow> yaml \<Rightarrow> pystr \<Rightarrow> yaml \<Rightarrow> pydict \<Rightarrow> fs" where
  "render_markdown w files template_path output_path encoding context =
     (case template_path of
        YStr path \<Rightarrow>
          (case jinja_render w files path context of
             Inl e \<Rightarrow> files
           | Inr content \<Rightarrow> fst (write_text w files output_path encoding content))
      | _ \<Rightarrow> files)"

text \<open>
  The call \<open>render_markdown(template_path, output_path, encoding, **context)\<close> itself
  raises \<open>TypeError\<close> when a key of \<open>context\<close> is not a string or is the name of one of
  the three positional parameters.
\<close>

definition call_keywords :: "pydict \<Rightarrow> exn + pydict" where
  "call_keywords context =
     (if \<exists>k \<in> set (map fst context). (case k of YStr s \<Rightarrow> False | _ \<Rightarrow> True)
      then Inl (TypeError ''keywords must be strings'')
      else if \<exists>k \<in> set (map fst context).
                k \<in> set [YStr (u ''template_path''), YStr (u ''output_path''), YStr (u ''encoding'')]
      then Inl (TypeError ''render_markdown() got multiple values for argument'')
      else Inr context)"

text \<open>The futures of a document: each task is one call of \<open>ocr_image_with_gemini\<close>,
  which returns in every case.\<close>

definition submit_all :: "world \<Rightarrow> yaml \<Rightarrow> yaml \<Rightarrow> image list \<Rightarrow> (exn + pystr) list" where
  "submit_all w model_name prompt images =
     map (\<lambda>img. Inr (ocr_image_with_gemini w img model_name prompt)) images"

definition document_text :: "world \<Rightarrow> yaml \<Rightarrow> yaml \<Rightarrow> image list \<Rightarrow> pystr" where
  "document_text w model_name prompt images =
     full_text_of (collect_results (submit_all w model_name prompt images)
                     (as_completed w (length images)))"

definition builtin_context ::
  "world \<Rightarrow> pystr \<Rightarrow> pystr \<Rightarrow> pystr \<Rightarrow> pystr \<Rightarrow> nat \<Rightarrow> yaml \<Rightarrow> pydict" where
  "builtin_context w full_text input_filename absolute_input_path relative_input_path
       page_count model_name =
     [(YStr (u ''content''), YStr full_text),
      (YStr (u ''filename''), YStr input_filename),
      (YStr (u ''absolute_pdf_path''), YStr absolute_input_path),
      (YStr (u ''relative_pdf_path''), YStr relative_input_path),
      (YStr (u ''source_path_absolute''), YStr absolute_input_path),
      (YStr (u ''source_path_relative''), YStr relative_input_path),
      (YStr (u ''datetime_processed''), YStr (now_isoformat w)),
      (YStr (u ''page_count''), YInt (int page_count)),
      (YStr (u ''model_used''), model_name)]"

text \<open>The branch of \<open>process_single_file\<close> taken when some text was extracted.\<close>

definition render_document ::
  "world \<Rightarrow> fs \<Rightarrow> pystr \<Rightarrow> pystr \<Rightarrow> yaml \<Rightarrow> yaml \<Rightarrow> nat \<Rightarrow> pystr \<Rightarrow> exn + (fs \<times> bool)" where
  "render_document w files input_path output_dir config model_name page_count full_text =
     (let input_filename = basename input_path;
          absolute_input_path = os_abspath w input_path
      in bind_exc (os_relpath w absolute_input_path output_dir) (\<lambda>relative_input_path.
         let output_filename = fst (splitext input_filename) @ u ''.md'';
             output_path = path_join output_dir output_filename;
             context = builtin_context w full_text input_filename absolute_input_path
                         relative_input_path page_count model_name
         in bind_exc (py_getitem config (u ''template'')) (\<lambda>template.
            bind_exc (py_contains (u ''variables'') template) (\<lambda>has_variables.
            bind_exc (if has_variables
                      then bind_exc (py_getitem template (u ''variables'')) (py_update context)
                      else Inr context) (\<lambda>context.
            bind_exc (py_getitem template (u ''path'')) (\<lambda>template_path.
            bind_exc (py_get config (u ''output'') (YDict [])) (\<lambda>output.
            bind_exc (py_get output (u ''encoding'') (YStr (u ''utf-8''))) (\<lambda>encoding.
            bind_exc (call_keywords context) (\<lambda>keywords.
              Inr (render_markdown w files template_path output_path encoding keywords,
                   True))))))))))"

text \<open>The body of the \<open>try\<close> of \<open>process_single_file\<close>.\<close>

definition process_body :: "world \<Rightarrow> fs \<Rightarrow> pystr \<Rightarrow> pystr \<Rightarrow> yaml \<Rightarrow> exn + (fs \<times> bool)" where
  "process_body w files input_path output_dir config =
     (let images = get_images w files input_path
      in if images = [] then Inr (files, False)
         else bind_exc (bind_exc (py_getitem config (u ''gemini''))
                                 (\<lambda>g. py_getitem g (u ''model''))) (\<lambda>model_name.
              bind_exc (bind_exc (py_getitem config (u ''gemini''))
                                 (\<lambda>g. py_getitem g (u ''prompt''))) (\<lambda>prompt.
              let full_text = document_text w model_name prompt images
              in if py_strip full_text \<noteq> []
                 then render_document w files input_path output_dir config model_name
                        (length images) full_text
                 else Inr (files, False))))"

text \<open>
  \<open>process_single_file\<close> returns the file system it leaves and its boolean. An
  exception of the body is logged and gives \<open>False\<close>; nothing was written by then,
  the rendering being the last step.
\<close>

definition process_single_file :: "world \<Rightarrow> fs \<Rightarrow> pystr \<Rightarrow> pystr \<Rightarrow> yaml \<Rightarrow> fs \<times> bool" where
  "process_single_file w files input_path output_dir config =
     (case process_body w files input_path output_dir config of
        Inr result \<Rightarrow> result
      | Inl e \<Rightarrow> (files, False))"

section \<open>The \<open>process\<close> subcommand\<close>

record args =
  arg_input_path :: pystr
  arg_output_dir :: pystr
  arg_config :: "pystr option"

definition glob_patterns :: "pystr list" where
  "glob_patterns = [u ''*.pdf'', u ''*.PDF'', u ''*.png'', u ''*.PNG'',
                    u ''*.jpg'', u ''*.JPG'', u ''*.jpeg'', u ''*.JPEG'']"

text \<open>The loop over the eight patterns, for any function standing for \<open>glob.glob\<close>.\<close>

definition find_files :: "(pystr \<Rightarrow> bool \<Rightarrow> pystr list) \<Rightarrow> pystr \<Rightarrow> pystr list" where
  "find_files glob_fn input_path =
     concat (map (\<lambda>ext. glob_fn (path_join input_path ext) False @
                         glob_fn (path_join (path_join input_path (u ''**'')) ext) True)
                 glob_patterns)"

text \<open>The input paths of a run; \<open>None\<close> stands for \<open>sys.exit(1)\<close>.\<close>

definition input_paths_of :: "world \<Rightarrow> fs \<Rightarrow> pystr \<Rightarrow> pystr list option" where
  "input_paths_of w files input_path =
     (if isfile files input_path then Some [input_path]
      else if isdir files input_path then
        (let input_paths = find_files (glob_glob w files) input_path
         in if input_paths = [] then None else Some input_paths)
      else None)"

text \<open>The loop over the documents: the file system and the two tallies are threaded
  through.\<close>

fun process_all :: "world \<Rightarrow> pystr \<Rightarrow> yaml \<Rightarrow> pystr list \<Rightarrow> fs \<times> nat \<times> nat \<Rightarrow> fs \<times> nat \<times> nat" where
  "process_all w output_dir config [] state = state"
| "process_all w output_dir config (input_path # rest) (files, successful, failed) =
     (case process_single_file w files input_path output_dir config of
        (files', ok) \<Rightarrow>
          process_all w output_dir config rest
            (files', if ok then successful + 1 else successful,
                     if ok then failed else failed + 1))"

text \<open>
  What a run of \<open>process\<close> leaves: the file system, the exit status of the process,
  the documents handed to \<open>process_single_file\<close>, and the two tallies.
\<close>

record run =
  final_fs :: fs
  exit_code :: nat
  processed :: "pystr list"
  successful_count :: nat
  failed_count :: nat

definition fatal_exit :: "fs \<Rightarrow> run" where
  "fatal_exit files =
     \<lparr>final_fs = files, exit_code = 1, processed = [], successful_count = 0, failed_count = 0\<rparr>"

definition process_command :: "world \<Rightarrow> fs \<Rightarrow> args \<Rightarrow> run" where
  "process_command w files a =
     (case input_paths_of w files (arg_input_path a) of
        None \<Rightarrow> fatal_exit files
      | Some input_paths \<Rightarrow>
          if \<not> isdir files (arg_output_dir a) then fatal_exit files
          else (case bind_exc (load_config w files (get_config_path w files (arg_config a)))
                       (\<lambda>config. bind_exc (configure_genai w) (\<lambda>_. Inr config)) of
                  Inl e \<Rightarrow> fatal_exit files
                | Inr config \<Rightarrow>
                    (case process_all w (arg_output_dir a) config input_paths (files, 0, 0) of
                       (files', successful, failed) \<Rightarrow>
                         \<lparr>final_fs = files',
                          exit_code = (if failed > 0 then 1 else 0),
                          processed = input_paths,
                          successful_count = successful,
                          failed_count = failed\<rparr>)))"

section \<open>Notions used to state the properties\<close>


definition raises :: "exn + 'a \<Rightarrow> bool" where
  "raises m = (case m of Inl e \<Rightarrow> True | Inr x \<Rightarrow> False)"

text \<open>The run gets as far as the loop over the documents: input paths were found,
  the output directory is there, the configuration loads and the API is configured.\<close>

definition setup_ok :: "world \<Rightarrow> fs \<Rightarrow> args \<Rightarrow> bool" where
  "setup_ok w files a \<longleftrightarrow>
     input_paths_of w files (arg_input_path a) \<noteq> None
     \<and> isdir files (arg_output_dir a)
     \<and> \<not> raises (load_config w files (get_config_path w files (arg_config a)))
     \<and> \<not> raises (configure_genai w)"


section \<open>A concrete environment\<close>

text \<open>
  One image file \<open>a.png\<close>, an output directory \<open>out\<close>, no configuration file and no
  template file: the decoder gives one page, the OCR call returns \<open>hello\<close>, the
  template engine does not find the template.
\<close>

definition example_world :: world where
  "example_world =
     \<lparr>env_home = Some (u ''/home/u''),
      module_dir = u ''/pkg'',
      env_api_key = Some (u ''key''),
      genai_configure = (\<lambda>key. None),
      yaml_safe_load = (\<lambda>content. Inl (PyExc ''YAMLError'' [])),
      yaml_dump = (\<lambda>y. u ''gemini: ...''),
      fitz_pages = (\<lambda>files path. Inl (PyExc ''FileDataError'' path)),
      pil_open = (\<lambda>files path. Inr (Image 0)),
      gemini_generate = (\<lambda>model_name prompt img. Inr (u ''hello'')),
      as_completed = (\<lambda>n. rev [0..<n]),
      jinja_render = (\<lambda>files path context. Inl (PyExc ''TemplateNotFound'' path)),
      codec_encode = (\<lambda>encoding content. Inr content),
      os_abspath = (\<lambda>path. u ''/work/'' @ path),
      os_relpath = (\<lambda>path start. Inr (u ''../'' @ basename path)),
      now_isoformat = u ''2024-01-01T00:00:00'',
      glob_glob = (\<lambda>files pattern recursive. [])\<rparr>"

definition example_fs :: fs where
  "example_fs = [u ''a.png'' \<mapsto> File [137, 80, 78, 71], u ''out'' \<mapsto> Dir]"

definition example_args :: args where
  "example_args = \<lparr>arg_input_path = u ''a.png'', arg_output_dir = u ''out'', arg_config = None\<rparr>"

section \<open>\<open>glob.glob\<close> on a directory tree\<close>


















section \<open>Properties of the dispatcher\<close>

lemma length_store_result: "length (store_result futures rs i) = length rs"
  by (simp add: store_result_def split: sum.splits)

lemma length_foldl_store:
  "length (foldl (store_result futures) rs completed) = length rs"
  by (induction completed arbitrary: rs) (simp_all add: length_store_result)

lemma nth_store_result:
  assumes "length rs = length futures" and "j < length futures"
  shows "store_result futures rs i ! j = (if j = i then slot_text futures j else rs ! j)"
  using assms by (auto simp: store_result_def slot_text_def split: sum.splits)

lemma nth_foldl_store:
  assumes "length rs = length futures" and "j < length futures"
  shows "foldl (store_result futures) rs completed ! j =
           (if j \<in> set completed then slot_text futures j else rs ! j)"
  using assms
proof (induction completed arbitrary: rs)
  case Nil
  then show ?case by simp
next
  case (Cons i completed)
  have len: "length (store_result futures rs i) = length futures"
    using Cons.prems(1) by (simp add: length_store_result)
  show ?case
    using Cons.IH [OF len Cons.prems(2)] nth_store_result [OF Cons.prems, of i]
    by auto
qed

lemma collect_results_eq:
  assumes "set completed = {0..<length futures}"
  shows "collect_results futures completed = map (slot_text futures) [0..<length futures]"
proof (rule nth_equalityI)
  show "length (collect_results futures completed) =
          length (map (slot_text futures) [0..<length futures])"
    by (simp add: collect_results_def length_foldl_store)
next
  fix j assume "j < length (collect_results futures completed)"
  then have j: "j < length futures"
    by (simp add: collect_results_def length_foldl_store)
  with assms have "j \<in> set completed" by simp
  with j show "collect_results futures completed ! j =
                 map (slot_text futures) [0..<length futures] ! j"
    by (simp add: collect_results_def nth_foldl_store)
qed

lemma document_text_ordered:
  assumes "set (as_completed w (length images)) = {0..<length images}"
  shows "document_text w model_name prompt images =
           py_join [10, 10] (map (\<lambda>img. ocr_image_with_gemini w img model_name prompt) images)"
proof -
  let ?futures = "submit_all w model_name prompt images"
  have n: "length ?futures = length images"
    by (simp add: submit_all_def)
  have "set (as_completed w (length images)) = {0..<length ?futures}"
    using assms by (simp add: n)
  then have "collect_results ?futures (as_completed w (length images))
               = map (slot_text ?futures) [0..<length ?futures]"
    by (rule collect_results_eq)
  also have "\<dots> = map (\<lambda>img. ocr_image_with_gemini w img model_name prompt) images"
    by (rule nth_equalityI) (simp_all add: n slot_text_def submit_all_def)
  finally show ?thesis
    by (simp add: document_text_def full_text_of_def page_separator_def)
qed

text \<open>
  C1. Whatever the order in which the tasks of an N-page document complete (every
  task completes once, so the order lists every page index), each result is stored
  at its page's own index, and the full text is the per-page texts in page order,
  joined by a blank line; so is the text \<open>process_single_file\<close> builds from the
  images of a document.
\<close>

theorem dispatch_preserves_page_order:
  assumes "set completed = {0..<length futures}"
  shows "collect_results futures completed = map (slot_text futures) [0..<length futures]
         \<and> full_text_of (collect_results futures completed) =
             py_join [10, 10] (map (slot_text futures) [0..<length futures])
         \<and> (set (as_completed w (length images)) = {0..<length images} \<longrightarrow>
              document_text w model_name prompt images =
                py_join [10, 10]
                  (map (\<lambda>img. ocr_image_with_gemini w img model_name prompt) images))"
proof -
  have a: "collect_results futures completed = map (slot_text futures) [0..<length futures]"
    by (rule collect_results_eq [OF assms])
  have b: "document_text w model_name prompt images =
             py_join [10, 10] (map (\<lambda>img. ocr_image_with_gemini w img model_name prompt) images)"
    if "set (as_completed w (length images)) = {0..<length images}"
    using that by (simp add: document_text_ordered)
  show ?thesis
    using a b by (simp add: full_text_of_def page_separator_def)
qed

theorem dispatch_preserves_page_order_witness:
  "set [2, 0, 1] = {0..<length [Inr (u ''a''), Inr (u ''b''), Inr (u ''c'')]}
   \<and> collect_results [Inr (u ''a''), Inr (u ''b''), Inr (u ''c'')] [2, 0, 1]
       = [u ''a'', u ''b'', u ''c'']
   \<and> full_text_of (collect_results [Inr (u ''a''), Inr (u ''b''), Inr (u ''c'')] [2, 0, 1])
       = u ''a'' @ [10, 10] @ u ''b'' @ [10, 10] @ u ''c''"
proof -
  have h: "set [2, 0, 1] = {0..<length [Inr (u ''a''), Inr (u ''b''), Inr (u ''c'') :: exn + pystr]}"
    by auto
  have m: "[0..<3] = [0, 1, 2]"
    by (simp add: upt_rec)
  show ?thesis
    using h dispatch_preserves_page_order [OF h]
    by (simp add: slot_text_def m full_text_of_def page_separator_def)
qed




section \<open>Properties of the transcriber\<close>











section \<open>Properties of the configuration\<close>

text \<open>
  C9. A \<open>--config\<close> path that does not exist resolves to the default path
  \<open>~/.config/handwrite/config.yaml\<close>; the function only returns a path, it has no
  error and no other signal. The custom path is the result only when it exists
  (or is the default path itself).
\<close>

theorem config_path_falls_back:
  "(\<not> path_exists files p \<longrightarrow> get_config_path w files (Some p) = default_config_path w)
   \<and> (get_config_path w files (Some p) = p \<longrightarrow> path_exists files p \<or> p = default_config_path w)
   \<and> (p \<noteq> [] \<and> path_exists files p \<longrightarrow> get_config_path w files (Some p) = p)
   \<and> default_config_path w =
       (case env_home w of
          None \<Rightarrow> u ''~/.config/handwrite/config.yaml''
        | Some userhome \<Rightarrow> rstrip_sep userhome @ u ''/.config/handwrite/config.yaml'')"
  by (auto simp: get_config_path_def default_config_path_def expanduser_config_dir_def
        path_join_def split: option.splits)





section \<open>Properties of \<open>process_single_file\<close> and \<open>process_command\<close>\<close>

lemma process_all_tally:
  "process_all w od cfg paths (files, s, f) = (files', s', f') \<Longrightarrow>
     s' + f' = s + f + length paths"
proof (induction paths arbitrary: files s f)
  case Nil
  then show ?case by simp
next
  case (Cons p paths)
  obtain files1 ok where r: "process_single_file w files p od cfg = (files1, ok)"
    by (cases "process_single_file w files p od cfg")
  show ?case
    using Cons.prems Cons.IH [of files1 "if ok then s + 1 else s" "if ok then f else f + 1"]
    by (simp add: r split: if_splits)
qed

text \<open>
  C4. When the concatenated text of the pages is empty or white space only,
  \<open>process_single_file\<close> returns \<open>False\<close> and leaves the file system as it was (no
  output file), and the loop over the documents carries on: every document of the
  run is tallied.
\<close>

theorem empty_text_fails_document:
  assumes "bind_exc (py_getitem config (u ''gemini'')) (\<lambda>g. py_getitem g (u ''model'')) = Inr model_name"
    and "bind_exc (py_getitem config (u ''gemini'')) (\<lambda>g. py_getitem g (u ''prompt'')) = Inr prompt"
    and "py_strip (document_text w model_name prompt (get_images w files input_path)) = []"
  shows "process_single_file w files input_path output_dir config = (files, False)
       \<and> (\<forall>before after files0 files' s' f'.
             process_all w output_dir config (before @ input_path # after) (files0, 0, 0)
               = (files', s', f') \<longrightarrow>
             s' + f' = length before + 1 + length after)"
proof -
  have one: "process_single_file w files input_path output_dir config = (files, False)"
    using assms by (simp add: process_single_file_def process_body_def bind_exc_def Let_def)
  have all: "s' + f' = length before + 1 + length after"
    if "process_all w output_dir config (before @ input_path # after) (files0, 0, 0)
          = (files', s', f')" for before after files0 files' s' f'
    using process_all_tally [OF that] by simp
  show ?thesis
    using one all by blast
qed



lemma input_paths_nonempty:
  "input_paths_of w files p = Some paths \<Longrightarrow> paths \<noteq> []"
  by (auto simp: input_paths_of_def Let_def split: if_splits)


lemma process_command_runs:
  assumes "setup_ok w files a"
  obtains paths config files' s f where
    "input_paths_of w files (arg_input_path a) = Some paths"
    "load_config w files (get_config_path w files (arg_config a)) = Inr config"
    "process_all w (arg_output_dir a) config paths (files, 0, 0) = (files', s, f)"
    "process_command w files a =
       \<lparr>final_fs = files', exit_code = (if f > 0 then 1 else 0), processed = paths,
        successful_count = s, failed_count = f\<rparr>"
proof -
  from assms obtain paths where p: "input_paths_of w files (arg_input_path a) = Some paths"
    by (auto simp: setup_ok_def)
  from assms obtain config where
    c: "load_config w files (get_config_path w files (arg_config a)) = Inr config"
    by (auto simp: setup_ok_def raises_def split: sum.splits)
  from assms have g: "configure_genai w = Inr ()"
    by (auto simp: setup_ok_def raises_def split: sum.splits)
  from assms have d: "isdir files (arg_output_dir a)"
    by (simp add: setup_ok_def)
  obtain files' s f where
    r: "process_all w (arg_output_dir a) config paths (files, 0, 0) = (files', s, f)"
    by (cases "process_all w (arg_output_dir a) config paths (files, 0, 0)")
  have "process_command w files a =
       \<lparr>final_fs = files', exit_code = (if f > 0 then 1 else 0), processed = paths,
        successful_count = s, failed_count = f\<rparr>"
    by (simp add: process_command_def p c g d r bind_exc_def)
  with p c r show thesis
    by (rule that)
qed


lemma missing_section_fails:
  assumes "raises (py_getitem cfg (u ''gemini'')) \<or> raises (py_getitem cfg (u ''template''))"
  shows "process_single_file w files ip od cfg = (files, False)"
  using assms
  by (auto simp: process_single_file_def process_body_def render_document_def bind_exc_def
        raises_def Let_def split: sum.splits)

lemma process_all_all_fail:
  assumes "\<And>files p. process_single_file w files p od cfg = (files, False)"
  shows "process_all w od cfg paths (files, s, f) = (files, s, f + length paths)"
  by (induction paths arbitrary: f) (simp_all add: assms)

text \<open>
  C10. Loading an existing configuration file returns what the YAML reader gives,
  unchecked. With a configuration that has no \<open>gemini\<close> or no \<open>template\<close> section every
  document fails inside \<open>process_single_file\<close>, writing nothing, and a run that
  reaches the documents processes all of them and ends with status 1.
\<close>

theorem missing_sections_fail_each_document:
  "(files p = Some (File content) \<longrightarrow> load_config w files p = yaml_safe_load w content)
   \<and> (raises (py_getitem cfg (u ''gemini'')) \<or> raises (py_getitem cfg (u ''template'')) \<longrightarrow>
        process_single_file w files input_path output_dir cfg = (files, False)
        \<and> (setup_ok w files a
             \<and> load_config w files (get_config_path w files (arg_config a)) = Inr cfg \<longrightarrow>
            exit_code (process_command w files a) = 1
            \<and> input_paths_of w files (arg_input_path a)
                 = Some (processed (process_command w files a))
            \<and> processed (process_command w files a) \<noteq> []
            \<and> failed_count (process_command w files a)
                 = length (processed (process_command w files a))
            \<and> successful_count (process_command w files a) = 0
            \<and> final_fs (process_command w files a) = files))"
proof -
  have l: "load_config w files p = yaml_safe_load w content" if "files p = Some (File content)"
    using that by (simp add: load_config_def path_exists_def)
  have m: "process_single_file w fs ip od cfg = (fs, False)"
    if "raises (py_getitem cfg (u ''gemini'')) \<or> raises (py_getitem cfg (u ''template''))"
    for fs ip od
    using that by (rule missing_section_fails)
  have c: "exit_code (process_command w files a) = 1
            \<and> input_paths_of w files (arg_input_path a)
                 = Some (processed (process_command w files a))
            \<and> processed (process_command w files a) \<noteq> []
            \<and> failed_count (process_command w files a)
                 = length (processed (process_command w files a))
            \<and> successful_count (process_command w files a) = 0
            \<and> final_fs (process_command w files a) = files"
    if lacks: "raises (py_getitem cfg (u ''gemini'')) \<or> raises (py_getitem cfg (u ''template''))"
      and ok: "setup_ok w files a"
      and cfg: "load_config w files (get_config_path w files (arg_config a)) = Inr cfg"
  proof -
    from ok obtain paths config files' s f where
      p: "input_paths_of w files (arg_input_path a) = Some paths" and
      c': "load_config w files (get_config_path w files (arg_config a)) = Inr config" and
      t: "process_all w (arg_output_dir a) config paths (files, 0, 0) = (files', s, f)" and
      r: "process_command w files a =
            \<lparr>final_fs = files', exit_code = (if f > 0 then 1 else 0), processed = paths,
             successful_count = s, failed_count = f\<rparr>"
      by (rule process_command_runs)
    have "config = cfg"
      using cfg c' by simp
    then have "(files', s, f) = (files, 0, 0 + length paths)"
      using t process_all_all_fail [of w "arg_output_dir a" cfg paths files 0 0] m [OF lacks]
      by simp
    moreover have "paths \<noteq> []"
      using p by (rule input_paths_nonempty)
    ultimately show ?thesis
      using p by (simp add: r)
  qed
  show ?thesis
    using l m c by blast
qed

section \<open>The concrete environment, evaluated\<close>

lemma example_world_fields:
  "env_home example_world = Some (u ''/home/u'')"
  "module_dir example_world = u ''/pkg''"
  "env_api_key example_world = Some (u ''key'')"
  "genai_configure example_world key = None"
  "pil_open example_world files path = Inr (Image 0)"
  "gemini_generate example_world m p img = Inr (u ''hello'')"
  "as_completed example_world n = rev [0..<n]"
  "jinja_render example_world files path ctx = Inl (PyExc ''TemplateNotFound'' path)"
  "os_abspath example_world path = u ''/work/'' @ path"
  "os_relpath example_world path start = Inr (u ''../'' @ basename path)"
  "now_isoformat example_world = u ''2024-01-01T00:00:00''"
  by (simp_all add: example_world_def)

lemma ex_images: "get_images example_world example_fs (u ''a.png'') = [Image 0]"
  by (simp add: get_images_def splitext_def after_last_sep_def upto_last_sep_def ascii_lower_def example_world_fields)

lemma ex_cfg: "load_config example_world example_fs (get_config_path example_world example_fs None)
   = Inr (config_with_prompt example_world (u ''Extract the handwritten text from this image.''))"
  by (simp add: load_config_def get_config_path_def default_config_path_def expanduser_config_dir_def
      path_join_def rstrip_sep_def path_exists_def example_fs_def example_world_fields)

lemma ex_text: "document_text example_world m p [Image 0] = u ''hello''"
  by (simp add: document_text_def submit_all_def collect_results_def store_result_def 
     full_text_of_def ocr_image_with_gemini_def example_world_fields)

lemma ex_strip: "py_strip (u ''hello'') = u ''hello''"
  by (simp add: py_strip_def py_isspace_def)

lemma ex_single:
  "process_single_file example_world example_fs (u ''a.png'') (u ''out'')
      (config_with_prompt example_world (u ''Extract the handwritten text from this image.''))
    = (example_fs, True)"
  using ex_images ex_text ex_strip
  by (simp add: process_single_file_def process_body_def bind_exc_def
      config_with_prompt_def py_getitem_def dict_lookup_def py_key_eq_def key_num_def
      render_document_def py_get_def py_contains_def
     py_update_def builtin_context_def call_keywords_def render_markdown_def Let_def
     template_default_path_def example_world_fields)

text \<open>
  C3, evaluated where the template engine fails: the document has text, the
  template is not found, no output file is written, and yet \<open>process_single_file\<close>
  returns \<open>True\<close>, the document is tallied as successful and the exit status is 0.
\<close>

theorem render_failure_counted_as_success:
  "jinja_render example_world example_fs (template_default_path example_world) context
     = Inl (PyExc ''TemplateNotFound'' (template_default_path example_world))
   \<and> py_strip (document_text example_world model_name prompt
                  (get_images example_world example_fs (u ''a.png''))) \<noteq> []
   \<and> process_single_file example_world example_fs (u ''a.png'') (u ''out'')
        (config_with_prompt example_world (u ''Extract the handwritten text from this image.''))
       = (example_fs, True)
   \<and> exit_code (process_command example_world example_fs example_args) = 0
   \<and> successful_count (process_command example_world example_fs example_args) = 1
   \<and> failed_count (process_command example_world example_fs example_args) = 0
   \<and> final_fs (process_command example_world example_fs example_args) = example_fs
   \<and> example_fs (u ''out/a.md'') = None"
proof -
  have i: "input_paths_of example_world example_fs (u ''a.png'') = Some [u ''a.png'']"
    by (simp add: input_paths_of_def isfile_def example_fs_def)
  have d: "isdir example_fs (u ''out'')"
    by (simp add: isdir_def example_fs_def)
  have g: "configure_genai example_world = Inr ()"
    by (simp add: configure_genai_def example_world_fields)
  have n: "example_fs (u ''out/a.md'') = None"
    by (simp add: example_fs_def)
  have t: "py_strip (document_text example_world model_name prompt
                  (get_images example_world example_fs (u ''a.png''))) \<noteq> []"
    using ex_images ex_text ex_strip by simp
  have j: "jinja_render example_world example_fs (template_default_path example_world) context
             = Inl (PyExc ''TemplateNotFound'' (template_default_path example_world))"
    by (simp add: example_world_fields)
  have run: "exit_code (process_command example_world example_fs example_args) = 0
     \<and> successful_count (process_command example_world example_fs example_args) = 1
     \<and> failed_count (process_command example_world example_fs example_args) = 0
     \<and> final_fs (process_command example_world example_fs example_args) = example_fs"
    using i d g ex_cfg ex_single
    by (simp add: process_command_def example_args_def bind_exc_def)
  show ?thesis
    using j t ex_single run n by blast
qed

section \<open>Instances in the concrete environment\<close>


lemma ex_gemini_keys:
  "bind_exc (py_getitem (config_with_prompt w prompt) (u ''gemini''))
            (\<lambda>g. py_getitem g (u ''model'')) = Inr (YStr (u ''gemini-1.5-pro''))"
  "bind_exc (py_getitem (config_with_prompt w prompt) (u ''gemini''))
            (\<lambda>g. py_getitem g (u ''prompt'')) = Inr (YStr prompt)"
  by (simp_all add: config_with_prompt_def py_getitem_def dict_lookup_def py_key_eq_def
        key_num_def bind_exc_def)

theorem empty_text_fails_document_witness:
  "py_strip (document_text
       (example_world\<lparr>gemini_generate := \<lambda>m p img. Inr [32, 10, 12288]\<rparr>)
       (YStr (u ''gemini-1.5-pro'')) (YStr (u ''read''))
       (get_images (example_world\<lparr>gemini_generate := \<lambda>m p img. Inr [32, 10, 12288]\<rparr>)
          example_fs (u ''a.png''))) = []
   \<and> process_single_file
       (example_world\<lparr>gemini_generate := \<lambda>m p img. Inr [32, 10, 12288]\<rparr>)
       example_fs (u ''a.png'') (u ''out'') (config_with_prompt example_world (u ''read''))
     = (example_fs, False)"
proof -
  let ?w = "example_world\<lparr>gemini_generate := \<lambda>m p img. Inr [32, 10, 12288]\<rparr>"
  have i: "get_images ?w example_fs (u ''a.png'') = [Image 0]"
    by (simp add: get_images_def splitext_def after_last_sep_def upto_last_sep_def
          ascii_lower_def example_world_fields)
  have t: "document_text ?w (YStr (u ''gemini-1.5-pro'')) (YStr (u ''read'')) [Image 0] = [32, 10, 12288]"
    by (simp add: document_text_def submit_all_def collect_results_def store_result_def
          full_text_of_def ocr_image_with_gemini_def example_world_fields)
  have s: "py_strip [32, 10, 12288] = []"
    by (simp add: py_strip_def py_isspace_def)
  have h: "py_strip (document_text ?w (YStr (u ''gemini-1.5-pro'')) (YStr (u ''read''))
             (get_images ?w example_fs (u ''a.png''))) = []"
    using i t s by simp
  from empty_text_fails_document [OF ex_gemini_keys(1) ex_gemini_keys(2) h]
  have "process_single_file ?w example_fs (u ''a.png'') (u ''out'')
          (config_with_prompt example_world (u ''read'')) = (example_fs, False)"
    by blast
  with h show ?thesis
    by blast
qed

lemma ex_default_path:
  "default_config_path example_world = u ''/home/u/.config/handwrite/config.yaml''"
  by (simp add: default_config_path_def expanduser_config_dir_def path_join_def rstrip_sep_def
        example_world_fields)

theorem config_path_falls_back_witness:
  "\<not> path_exists example_fs (u ''missing.yaml'')
   \<and> get_config_path example_world example_fs (Some (u ''missing.yaml''))
       = u ''/home/u/.config/handwrite/config.yaml''
   \<and> path_exists example_fs (u ''a.png'')
   \<and> get_config_path example_world example_fs (Some (u ''a.png'')) = u ''a.png''"
proof -
  have n: "\<not> path_exists example_fs (u ''missing.yaml'')"
    and y: "u ''a.png'' \<noteq> [] \<and> path_exists example_fs (u ''a.png'')"
    by (simp_all add: path_exists_def example_fs_def)
  from config_path_falls_back [of example_fs "u ''missing.yaml''" example_world] n
  have a: "get_config_path example_world example_fs (Some (u ''missing.yaml''))
             = default_config_path example_world"
    by blast
  from config_path_falls_back [of example_fs "u ''a.png''" example_world] y
  have b: "get_config_path example_world example_fs (Some (u ''a.png'')) = u ''a.png''"
    by blast
  show ?thesis
    using n y a b by (simp add: ex_default_path)
qed








theorem missing_sections_fail_each_document_witness:
  "raises (py_getitem (YDict []) (u ''gemini''))
   \<and> setup_ok (example_world\<lparr>yaml_safe_load := \<lambda>content. Inr (YDict [])\<rparr>)
        (example_fs(u ''/home/u/.config/handwrite/config.yaml'' \<mapsto> File (u ''{}'')))
        example_args
   \<and> load_config (example_world\<lparr>yaml_safe_load := \<lambda>content. Inr (YDict [])\<rparr>)
        (example_fs(u ''/home/u/.config/handwrite/config.yaml'' \<mapsto> File (u ''{}'')))
        (u ''/home/u/.config/handwrite/config.yaml'')
       = Inr (YDict [])
   \<and> exit_code (process_command
        (example_world\<lparr>yaml_safe_load := \<lambda>content. Inr (YDict [])\<rparr>)
        (example_fs(u ''/home/u/.config/handwrite/config.yaml'' \<mapsto> File (u ''{}'')))
        example_args) = 1
   \<and> failed_count (process_command
        (example_world\<lparr>yaml_safe_load := \<lambda>content. Inr (YDict [])\<rparr>)
        (example_fs(u ''/home/u/.config/handwrite/config.yaml'' \<mapsto> File (u ''{}'')))
        example_args) = 1"
proof -
  let ?w = "example_world\<lparr>yaml_safe_load := \<lambda>content. Inr (YDict [])\<rparr>"
  let ?p = "u ''/home/u/.config/handwrite/config.yaml''"
  let ?fs = "example_fs(?p \<mapsto> File (u ''{}''))"
  have r: "raises (py_getitem (YDict []) (u ''gemini''))"
    by (simp add: raises_def py_getitem_def dict_lookup_def)
  have dp: "default_config_path ?w = ?p"
    by (simp add: default_config_path_def expanduser_config_dir_def path_join_def rstrip_sep_def
          example_world_fields)
  have cp: "get_config_path ?w ?fs (arg_config example_args) = ?p"
    by (simp add: get_config_path_def example_args_def dp)
  have l: "load_config ?w ?fs ?p = Inr (YDict [])"
    by (simp add: load_config_def path_exists_def)
  have i: "input_paths_of ?w ?fs (arg_input_path example_args) = Some [u ''a.png'']"
    by (simp add: input_paths_of_def isfile_def example_fs_def example_args_def)
  have d: "isdir ?fs (arg_output_dir example_args)"
    by (simp add: isdir_def example_fs_def example_args_def)
  have g: "configure_genai ?w = Inr ()"
    by (simp add: configure_genai_def example_world_fields)
  have l': "load_config ?w ?fs (get_config_path ?w ?fs (arg_config example_args)) = Inr (YDict [])"
    by (subst cp) (rule l)
  have ok: "setup_ok ?w ?fs example_args"
    using i d g l' by (simp add: setup_ok_def raises_def)
  from missing_sections_fail_each_document [of ?fs ?p "u ''{}''" ?w "YDict []" "u ''a.png''"
      "u ''out''" example_args] r ok l'
  have c: "exit_code (process_command ?w ?fs example_args) = 1
         \<and> input_paths_of ?w ?fs (arg_input_path example_args)
              = Some (processed (process_command ?w ?fs example_args))
         \<and> failed_count (process_command ?w ?fs example_args)
              = length (processed (process_command ?w ?fs example_args))"
    by blast
  then have "failed_count (process_command ?w ?fs example_args) = 1"
    using i by simp
  with r ok l c show ?thesis
    by blast
qed

section \<open>Properties of file discovery\<close>






































end
